theory Spec2Isabelle
  imports Complex_Main
begin

section \<open>JavaScript values used by the tracker\<close>

text \<open>
  A JavaScript number is an IEEE binary64 value. The model keeps \<open>NaN\<close> and the two
  infinities apart and takes a finite number as the real it denotes; the result of every
  addition, multiplication and division is rounded to the nearest binary64 value, ties
  to even, and overflows to an infinity. The two zeros are one value (no operation below
  tells them apart except a division by zero, which \<open>calculateProgress\<close> never
  performs with a negative zero).
\<close>

datatype number = Num real | NaN | PInf | NInf

subsection \<open>Rounding to binary64\<close>

text \<open>The nearest integer, the even one of the two on a tie.\<close>

definition rne :: "real \<Rightarrow> int" where
  "rne x =
     (let f = \<lfloor>x\<rfloor>; d = x - of_int f
      in if d < 1 / 2 then f else if 1 / 2 < d then f + 1 else if even f then f else f + 1)"

text \<open>
  The exponent of the binade of a positive real, not below \<open>-1022\<close> (the subnormal
  numbers share the exponent of the smallest normal ones), and the distance of two
  neighbouring binary64 values in that binade: a significand has 53 bits.
\<close>

definition binade :: "real \<Rightarrow> int" where
  "binade a = max \<lfloor>log 2 a\<rfloor> (- 1022)"

definition ulp :: "real \<Rightarrow> real" where
  "ulp a = 2 powi (binade a - 52)"

text \<open>The nearest multiple of the \<open>ulp\<close>, before the overflow check.\<close>

definition rd :: "real \<Rightarrow> real" where
  "rd x = (if x = 0 then 0 else sgn x * (of_int (rne (\<bar>x\<bar> / ulp \<bar>x\<bar>)) * ulp \<bar>x\<bar>))"

definition round64 :: "real \<Rightarrow> number" where
  "round64 x = (if 2 ^ 1024 \<le> \<bar>rd x\<bar> then (if x < 0 then NInf else PInf) else Num (rd x))"

text \<open>The reals that are binary64 values.\<close>

definition is_double :: "real \<Rightarrow> bool" where
  "is_double x = (round64 x = Num x)"

subsection \<open>Comparison and arithmetic\<close>

fun js_lt :: "number \<Rightarrow> number \<Rightarrow> bool" where
  "js_lt NaN _ = False"
| "js_lt _ NaN = False"
| "js_lt (Num a) (Num b) = (a < b)"
| "js_lt NInf NInf = False"
| "js_lt NInf _ = True"
| "js_lt _ NInf = False"
| "js_lt PInf _ = False"
| "js_lt _ PInf = True"

definition js_gt :: "number \<Rightarrow> number \<Rightarrow> bool" where
  "js_gt a b = js_lt b a"

definition js_le :: "number \<Rightarrow> number \<Rightarrow> bool" where
  "js_le a b = (a \<noteq> NaN \<and> b \<noteq> NaN \<and> \<not> js_lt b a)"

definition js_ge :: "number \<Rightarrow> number \<Rightarrow> bool" where
  "js_ge a b = js_le b a"

text \<open>Strict equality \<open>===\<close> on numbers: \<open>NaN\<close> equals nothing, itself included.\<close>

definition js_eq :: "number \<Rightarrow> number \<Rightarrow> bool" where
  "js_eq a b = (a \<noteq> NaN \<and> a = b)"

fun js_neg :: "number \<Rightarrow> number" where
  "js_neg (Num a) = Num (- a)"
| "js_neg NaN = NaN"
| "js_neg PInf = NInf"
| "js_neg NInf = PInf"

fun js_add :: "number \<Rightarrow> number \<Rightarrow> number" where
  "js_add NaN _ = NaN"
| "js_add _ NaN = NaN"
| "js_add (Num a) (Num b) = round64 (a + b)"
| "js_add PInf NInf = NaN"
| "js_add NInf PInf = NaN"
| "js_add PInf _ = PInf"
| "js_add NInf _ = NInf"
| "js_add _ PInf = PInf"
| "js_add _ NInf = NInf"

definition js_sub :: "number \<Rightarrow> number \<Rightarrow> number" where
  "js_sub a b = js_add a (js_neg b)"

fun js_abs :: "number \<Rightarrow> number" where
  "js_abs (Num a) = Num \<bar>a\<bar>"
| "js_abs NaN = NaN"
| "js_abs PInf = PInf"
| "js_abs NInf = PInf"

text \<open>The sign of a number that is not \<open>NaN\<close>: \<open>-1\<close>, \<open>0\<close> or \<open>1\<close>.\<close>

fun js_sign :: "number \<Rightarrow> int" where
  "js_sign (Num a) = (if a < 0 then - 1 else if a = 0 then 0 else 1)"
| "js_sign PInf = 1"
| "js_sign NInf = - 1"
| "js_sign NaN = 0"

definition signed_inf :: "int \<Rightarrow> number" where
  "signed_inf k = (if k < 0 then NInf else PInf)"

fun js_mul :: "number \<Rightarrow> number \<Rightarrow> number" where
  "js_mul NaN _ = NaN"
| "js_mul _ NaN = NaN"
| "js_mul (Num a) (Num b) = round64 (a * b)"
| "js_mul a b =
     (if js_sign a * js_sign b = 0 then NaN else signed_inf (js_sign a * js_sign b))"

fun js_div :: "number \<Rightarrow> number \<Rightarrow> number" where
  "js_div NaN _ = NaN"
| "js_div _ NaN = NaN"
| "js_div (Num a) (Num b) =
     (if b = 0 then (if a = 0 then NaN else signed_inf (js_sign (Num a)))
      else round64 (a / b))"
| "js_div (Num a) _ = Num 0"
| "js_div a (Num b) = signed_inf (js_sign a * (if b < 0 then - 1 else 1))"
| "js_div _ _ = NaN"

text \<open>\<open>Math.max\<close> and \<open>Math.min\<close> of two arguments: \<open>NaN\<close> if either is.\<close>

definition Math_max :: "number \<Rightarrow> number \<Rightarrow> number" where
  "Math_max a b = (if a = NaN \<or> b = NaN then NaN else if js_lt a b then b else a)"

definition Math_min :: "number \<Rightarrow> number \<Rightarrow> number" where
  "Math_min a b = (if a = NaN \<or> b = NaN then NaN else if js_lt b a then b else a)"

subsection \<open>Strings\<close>

text \<open>
  Strings are byte lists; a letter outside ASCII is written as its UTF-8 bytes. A string
  is truthy exactly when it is not empty.
\<close>

definition truthy :: "string \<Rightarrow> bool" where
  "truthy s = (s \<noteq> [])"

definition inv_excl :: string where
  "inv_excl = [CHR 0xC2, CHR 0xA1]"

definition a_acute :: string where
  "a_acute = [CHR 0xC3, CHR 0xA1]"

definition e_acute :: string where
  "e_acute = [CHR 0xC3, CHR 0xA9]"

fun join :: "string \<Rightarrow> string list \<Rightarrow> string" where
  "join sep [] = []"
| "join sep [x] = x"
| "join sep (x # y # ys) = x @ sep @ join sep (y # ys)"

subsection \<open>\<open>Number.prototype.toFixed(2)\<close>\<close>

function decimal :: "nat \<Rightarrow> string" where
  "decimal n = (if n < 10 then [''0123456789'' ! n]
                else decimal (n div 10) @ [''0123456789'' ! (n mod 10)])"
  by pat_completeness auto
termination
  by (relation "measure id") auto

declare decimal.simps [simp del]

text \<open>
  \<open>x.toFixed(2)\<close>. \<open>NaN\<close> and the infinities print by name. Otherwise the sign is
  split off; a magnitude of \<open>10^21\<close> or more prints as \<open>ToString\<close> of it, which the
  model takes as the parameter \<open>toStr\<close> (the shortest round-trip decimal of a double
  has no counterpart on reals); a smaller one prints as the integer \<open>n\<close> nearest to
  \<open>100\<close> times it (the larger one on a tie), written with at least three digits and a
  point before the last two.
\<close>

definition toFixed2 :: "(number \<Rightarrow> string) \<Rightarrow> number \<Rightarrow> string" where
  "toFixed2 toStr x =
     (case x of
        NaN \<Rightarrow> ''NaN''
      | PInf \<Rightarrow> ''Infinity''
      | NInf \<Rightarrow> ''-Infinity''
      | Num r \<Rightarrow>
          let s = (if r < 0 then ''-'' else '''');
              x' = \<bar>r\<bar>
          in if 10 ^ 21 \<le> x' then s @ toStr (Num x')
             else
               let n = nat \<lfloor>x' * 100 + 1 / 2\<rfloor>;
                   m = decimal n;
                   m' = (if length m \<le> 2 then replicate (3 - length m) CHR ''0'' @ m else m)
               in s @ take (length m' - 2) m' @ ''.'' @ drop (length m' - 2) m')"

section \<open>The progress calculator\<close>

record progress_result =
  progress :: number
  progressText :: string

definition calculateProgress ::
  "(number \<Rightarrow> string) \<Rightarrow> number \<Rightarrow> number \<Rightarrow> number \<Rightarrow> progress_result" where
  "calculateProgress toStr initial current goal =
     (if js_eq initial goal
      then \<lparr>progress = Num 100,
            progressText = inv_excl @ ''Ya est'' @ a_acute @ ''s en tu peso meta!''\<rparr>
      else
        let totalDistance = js_abs (js_sub goal initial);
            distanceCovered =
              (if js_gt goal initial then js_sub current initial else js_sub initial current);
            progress0 = js_mul (js_div distanceCovered totalDistance) (Num 100);
            progress1 = Math_max (Num 0) (Math_min progress0 (Num 100));
            diff = js_abs (js_sub current goal);
            fx = toFixed2 toStr;
            text =
              (if js_gt goal initial then
                 (if js_ge current goal then
                    inv_excl @ ''Felicidades! Has alcanzado y superado tu meta por ''
                      @ fx (js_abs (js_sub current goal)) @ '' kg.''
                  else if js_ge current initial then
                    ''Has ganado '' @ fx (js_abs (js_sub current initial)) @ '' kg. ''
                      @ inv_excl @ ''Te faltan '' @ fx diff @ '' kg para tu meta!''
                  else
                    ''Has perdido '' @ fx (js_abs (js_sub current initial)) @ '' kg. Est''
                      @ a_acute @ ''s a '' @ fx diff @ '' kg de tu meta.'')
               else
                 (if js_le current goal then
                    inv_excl @ ''Felicidades! Has alcanzado y superado tu meta por ''
                      @ fx (js_abs (js_sub current goal)) @ '' kg.''
                  else if js_le current initial then
                    ''Has perdido '' @ fx (js_abs (js_sub initial current)) @ '' kg. ''
                      @ inv_excl @ ''Te faltan '' @ fx diff @ '' kg para tu meta!''
                  else
                    ''Has ganado '' @ fx (js_abs (js_sub current initial)) @ '' kg. Est''
                      @ a_acute @ ''s a '' @ fx diff @ '' kg de tu meta.''))
        in \<lparr>progress = progress1, progressText = text\<rparr>)"

section \<open>\<open>parseFloat\<close>\<close>

text \<open>
  \<open>parseFloat\<close> skips leading white space (\<open>StrWhiteSpaceChar\<close>: the ASCII ones and, in
  UTF-8, U+00A0, U+1680, U+2000 to U+200A, U+2028, U+2029, U+202F, U+205F, U+3000 and
  U+FEFF), takes the longest prefix that is a \<open>StrDecimalLiteral\<close> and returns its
  value rounded to binary64, or \<open>NaN\<close> when there is no such prefix. \<open>ws_prefix\<close> is
  the number of bytes of the white-space character at the head of the string, \<open>0\<close>
  when there is none.
\<close>

definition ws_prefix :: "string \<Rightarrow> nat" where
  "ws_prefix s =
     (case map of_char (take 3 s) :: nat list of
        [] \<Rightarrow> 0
      | b0 # r \<Rightarrow>
          if b0 \<in> {9, 10, 11, 12, 13, 32} then 1
          else (case r of
                  [] \<Rightarrow> 0
                | b1 # r' \<Rightarrow>
                    if b0 = 0xC2 \<and> b1 = 0xA0 then 2
                    else (case r' of
                            [] \<Rightarrow> 0
                          | b2 # _ \<Rightarrow>
                              if (b0 = 0xE1 \<and> b1 = 0x9A \<and> b2 = 0x80)
                                 \<or> (b0 = 0xE2 \<and> b1 = 0x80 \<and> 0x80 \<le> b2 \<and> b2 \<le> 0x8A)
                                 \<or> (b0 = 0xE2 \<and> b1 = 0x80 \<and> b2 \<in> {0xA8, 0xA9, 0xAF})
                                 \<or> (b0 = 0xE2 \<and> b1 = 0x81 \<and> b2 = 0x9F)
                                 \<or> (b0 = 0xE3 \<and> b1 = 0x80 \<and> b2 = 0x80)
                                 \<or> (b0 = 0xEF \<and> b1 = 0xBB \<and> b2 = 0xBF)
                              then 3 else 0)))"

function trimStart :: "string \<Rightarrow> string" where
  "trimStart s = (if ws_prefix s = 0 then s else trimStart (drop (ws_prefix s) s))"
  by pat_completeness auto
termination
proof (relation "measure length")
  show "wf (measure length)" by simp
next
  fix s :: string
  assume "ws_prefix s \<noteq> 0"
  then have "s \<noteq> []" by (auto simp: ws_prefix_def)
  with \<open>ws_prefix s \<noteq> 0\<close> show "(drop (ws_prefix s) s, s) \<in> measure length"
    by simp
qed

declare trimStart.simps [simp del]

definition isDigit :: "char \<Rightarrow> bool" where
  "isDigit c = (48 \<le> (of_char c :: nat) \<and> (of_char c :: nat) \<le> 57)"

definition digitsValue :: "string \<Rightarrow> nat" where
  "digitsValue ds = foldl (\<lambda>acc c. 10 * acc + (of_char c - 48)) 0 ds"

text \<open>The value of an optional \<open>ExponentPart\<close> at the head of the string, \<open>0\<close> without one.\<close>

definition exponentPart :: "string \<Rightarrow> int" where
  "exponentPart s =
     (case s of
        [] \<Rightarrow> 0
      | e # r \<Rightarrow>
          if e = CHR ''e'' \<or> e = CHR ''E'' then
            (let neg = (case r of [] \<Rightarrow> False | c # _ \<Rightarrow> c = CHR ''-'');
                 r' = (case r of [] \<Rightarrow> r
                       | c # t \<Rightarrow> if c = CHR ''-'' \<or> c = CHR ''+'' then t else r);
                 ds = takeWhile isDigit r'
             in if ds = [] then 0
                else if neg then - int (digitsValue ds) else int (digitsValue ds))
          else 0)"

definition scale10 :: "real \<Rightarrow> int \<Rightarrow> real" where
  "scale10 m e = (if 0 \<le> e then m * 10 ^ nat e else m / 10 ^ nat (- e))"

text \<open>
  The longest \<open>StrDecimalLiteral\<close> prefix and its mathematical value, the decimal
  numeral read exactly; \<open>None\<close> when there is none.
\<close>

definition strDecimalLiteral :: "string \<Rightarrow> number option" where
  "strDecimalLiteral s =
     (let neg = (case s of [] \<Rightarrow> False | c # _ \<Rightarrow> c = CHR ''-'');
          r = (case s of [] \<Rightarrow> s
               | c # t \<Rightarrow> if c = CHR ''-'' \<or> c = CHR ''+'' then t else s)
      in if take 8 r = ''Infinity'' then Some (if neg then NInf else PInf)
         else
           let ip = takeWhile isDigit r;
               r1 = dropWhile isDigit r;
               fp = (case r1 of [] \<Rightarrow> []
                     | c # t \<Rightarrow> if c = CHR ''.'' then takeWhile isDigit t else []);
               r2 = (case r1 of [] \<Rightarrow> []
                     | c # t \<Rightarrow> if c = CHR ''.'' then dropWhile isDigit t else r1)
           in if ip = [] \<and> fp = [] then None
              else
                let m = real (digitsValue ip) + real (digitsValue fp) / 10 ^ length fp;
                    v = scale10 m (exponentPart r2)
                in Some (Num (if neg then - v else v)))"

text \<open>
  The value of a finite literal is rounded to binary64, from the exact value whatever
  the number of its digits, as the engines do.
\<close>

definition parseFloat :: "string \<Rightarrow> number" where
  "parseFloat s =
     (case strDecimalLiteral (trimStart s) of
        None \<Rightarrow> NaN
      | Some v \<Rightarrow> (case v of Num r \<Rightarrow> round64 r | _ \<Rightarrow> v))"

section \<open>The tracking data model\<close>

datatype ActivityLevel = Sedentario | Ligero | Moderado | Activo | Muy_Activo

fun activityLevelText :: "ActivityLevel \<Rightarrow> string" where
  "activityLevelText Sedentario = ''Sedentario''"
| "activityLevelText Ligero = ''Ligero''"
| "activityLevelText Moderado = ''Moderado''"
| "activityLevelText Activo = ''Activo''"
| "activityLevelText Muy_Activo = ''Muy Activo''"

record UserProfile =
  name :: string
  age :: number
  objective :: string
  initialWeight :: number
  weightGoal :: number

record DailyFoodLog =
  breakfast :: string
  lunch :: string
  snack :: string
  dinner :: string
  other :: string

record DailyLog =
  weight :: number
  food :: DailyFoodLog
  mood :: string
  activityLevel :: ActivityLevel

record Metrics =
  strength :: string
  measurements :: string
  bmi :: string
  dailyActivity :: string

record Summary =
  content :: string

definition dayNames :: "string list" where
  "dayNames = [''Lunes'', ''Martes'', ''Mi'' @ e_acute @ ''rcoles'', ''Jueves'', ''Viernes'',
               ''S'' @ a_acute @ ''bado'', ''Domingo'']"

definition initialDailyLog :: DailyLog where
  "initialDailyLog =
     \<lparr>weight = Num 0,
      food = \<lparr>breakfast = '''', lunch = '''', snack = '''', dinner = '''', other = ''''\<rparr>,
      mood = '''',
      activityLevel = Moderado\<rparr>"

definition initialMetrics :: Metrics where
  "initialMetrics = \<lparr>strength = '''', measurements = '''', bmi = '''', dailyActivity = ''''\<rparr>"

section \<open>The component state, with the day objects in a store\<close>

text \<open>
  \<open>handleFoodChange\<close> assigns to a field of a day object that other arrays may hold too,
  so day objects live in a store and an array of days is a list of addresses. A
  JavaScript reference never dangles, hence the store is total; \<open>fresh\<close> is the next
  address that \<open>{ ... }\<close> allocates. Arrays and food blocks are values: the handlers
  copy an array before writing a slot and build a new food object instead of writing
  into one, so no write to either is ever seen through an alias.

  \<open>initialWeeklyLog\<close> is the module-level constant: the seven day objects created when
  the module is loaded, at addresses \<open>0\<close> to \<open>6\<close>.
\<close>

type_synonym addr = nat

record app_state =
  store :: "addr \<Rightarrow> DailyLog"
  fresh :: addr
  weeklyLog :: "addr list"
  metrics :: Metrics
  currentDayIndex :: nat
  summary :: "Summary option"
  loading :: bool

definition initialWeeklyLog :: "addr list" where
  "initialWeeklyLog = [0, 1, 2, 3, 4, 5, 6]"

text \<open>The weekly log a reader of the state sees: the day objects behind the addresses.\<close>

definition days :: "app_state \<Rightarrow> DailyLog list" where
  "days s = map (store s) (weeklyLog s)"

text \<open>
  The state at the first render. \<open>useStickyState\<close> takes the stored value of a key when
  there is one (\<open>JSON.parse\<close> builds new objects, here at addresses from \<open>7\<close> on) and
  the default otherwise, which for the weekly log is the constant \<open>initialWeeklyLog\<close>
  itself.
\<close>

definition mount :: "DailyLog list option \<Rightarrow> Metrics option \<Rightarrow> app_state" where
  "mount storedLog storedMetrics =
     (let parsed = (case storedLog of None \<Rightarrow> [] | Some ds \<Rightarrow> ds)
      in \<lparr>store = (\<lambda>a. if 7 \<le> a \<and> a < 7 + length parsed then parsed ! (a - 7)
                       else initialDailyLog),
          fresh = 7 + length parsed,
          weeklyLog = (case storedLog of None \<Rightarrow> initialWeeklyLog
                       | Some ds \<Rightarrow> [7 ..< 7 + length ds]),
          metrics = (case storedMetrics of None \<Rightarrow> initialMetrics | Some m \<Rightarrow> m),
          currentDayIndex = 0,
          summary = None,
          loading = False\<rparr>)"

subsection \<open>The handlers\<close>

text \<open>
  The \<open>name\<close> and \<open>value\<close> of the changed input. The weight and mood inputs deliver
  a string, the activity select one of its five options.
\<close>

datatype log_input = WeightInput string | MoodInput string | ActivityLevelInput ActivityLevel

datatype food_field = Breakfast | Lunch | Snack | Dinner | Other

datatype metrics_field = Strength | Measurements | Bmi | DailyActivity

text \<open>
  With \<open>currentDayIndex\<close> beyond the array, \<open>handleLogChange\<close> would spread \<open>undefined\<close>
  and store an object with a single field, which is no \<open>DailyLog\<close>
  (\<open>NotADailyLog\<close>), and \<open>handleFoodChange\<close> would read \<open>food\<close> of \<open>undefined\<close>
  (\<open>TypeError\<close>).
\<close>

datatype failure = TypeError | NotADailyLog

definition setField :: "log_input \<Rightarrow> DailyLog \<Rightarrow> DailyLog" where
  "setField inp d =
     (case inp of
        WeightInput v \<Rightarrow> d\<lparr>weight := parseFloat v\<rparr>
      | MoodInput v \<Rightarrow> d\<lparr>mood := v\<rparr>
      | ActivityLevelInput a \<Rightarrow> d\<lparr>activityLevel := a\<rparr>)"

definition handleLogChange :: "log_input \<Rightarrow> app_state \<Rightarrow> failure + app_state" where
  "handleLogChange inp s =
     (let newWeeklyLog = weeklyLog s;
          i = currentDayIndex s
      in if i < length newWeeklyLog then
           let obj = setField inp (store s (newWeeklyLog ! i));
               a = fresh s
           in Inr (s\<lparr>store := (store s)(a := obj), fresh := Suc a,
                      weeklyLog := newWeeklyLog[i := a]\<rparr>)
         else Inl NotADailyLog)"

definition setFood :: "food_field \<Rightarrow> string \<Rightarrow> DailyFoodLog \<Rightarrow> DailyFoodLog" where
  "setFood f v fl =
     (case f of
        Breakfast \<Rightarrow> fl\<lparr>breakfast := v\<rparr>
      | Lunch \<Rightarrow> fl\<lparr>lunch := v\<rparr>
      | Snack \<Rightarrow> fl\<lparr>snack := v\<rparr>
      | Dinner \<Rightarrow> fl\<lparr>dinner := v\<rparr>
      | Other \<Rightarrow> fl\<lparr>other := v\<rparr>)"

text \<open>
  \<open>newWeeklyLog[currentDayIndex].food = ...\<close> writes the \<open>food\<close> field of the day
  object that the copied array still shares with the old one.
\<close>

definition handleFoodChange :: "food_field \<Rightarrow> string \<Rightarrow> app_state \<Rightarrow> failure + app_state" where
  "handleFoodChange f v s =
     (let newWeeklyLog = weeklyLog s;
          i = currentDayIndex s
      in if i < length newWeeklyLog then
           let a = newWeeklyLog ! i;
               d = store s a
           in Inr (s\<lparr>store := (store s)(a := d\<lparr>food := setFood f v (food d)\<rparr>),
                      weeklyLog := newWeeklyLog\<rparr>)
         else Inl TypeError)"

definition handleMetricsChange :: "metrics_field \<Rightarrow> string \<Rightarrow> app_state \<Rightarrow> app_state" where
  "handleMetricsChange f v s =
     (let prev = metrics s
      in s\<lparr>metrics :=
             (case f of
                Strength \<Rightarrow> prev\<lparr>strength := v\<rparr>
              | Measurements \<Rightarrow> prev\<lparr>measurements := v\<rparr>
              | Bmi \<Rightarrow> prev\<lparr>bmi := v\<rparr>
              | DailyActivity \<Rightarrow> prev\<lparr>dailyActivity := v\<rparr>)\<rparr>)"

text \<open>\<open>confirmed\<close> is the answer of \<open>window.confirm\<close>.\<close>

definition handleNewWeek :: "bool \<Rightarrow> app_state \<Rightarrow> app_state" where
  "handleNewWeek confirmed s =
     (if confirmed
      then s\<lparr>weeklyLog := initialWeeklyLog, metrics := initialMetrics, summary := None,
              currentDayIndex := 0\<rparr>
      else s)"

definition prevDay :: "app_state \<Rightarrow> app_state" where
  "prevDay s = s\<lparr>currentDayIndex := max 0 (currentDayIndex s - 1)\<rparr>"

definition nextDay :: "app_state \<Rightarrow> app_state" where
  "nextDay s = s\<lparr>currentDayIndex := min 6 (currentDayIndex s + 1)\<rparr>"

section \<open>The weekly section of the prompt\<close>

text \<open>
  An element of the \<open>dayData\<close> array is \<open>false\<close> or a string; \<open>filter(Boolean)\<close> keeps
  the non-empty strings.
\<close>

datatype str_or_false = JFalse | Str string

fun filter_Boolean :: "str_or_false list \<Rightarrow> string list" where
  "filter_Boolean [] = []"
| "filter_Boolean (JFalse # vs) = filter_Boolean vs"
| "filter_Boolean (Str s # vs) = (if truthy s then s # filter_Boolean vs else filter_Boolean vs)"

text \<open>\<open>Object.values(day.food).some(f => f)\<close> and the same on the metrics.\<close>

definition someFood :: "DailyFoodLog \<Rightarrow> bool" where
  "someFood fl = list_ex truthy [breakfast fl, lunch fl, snack fl, dinner fl, other fl]"

definition someMetric :: "Metrics \<Rightarrow> bool" where
  "someMetric m = list_ex truthy [strength m, measurements m, bmi m, dailyActivity m]"

definition dayName :: "nat \<Rightarrow> string" where
  "dayName index = (if index < length dayNames then dayNames ! index else ''undefined'')"

text \<open>
  \<open>toStr\<close> is \<open>ToString\<close> on numbers, used by the template literal for the weight.
\<close>

definition dayData :: "(number \<Rightarrow> string) \<Rightarrow> DailyLog \<Rightarrow> string" where
  "dayData toStr day =
     join ''; '' (filter_Boolean
       [if js_gt (weight day) (Num 0) then Str (''Peso: '' @ toStr (weight day) @ '' kg'')
        else JFalse,
        if someFood (food day) then
          Str (''Comidas: Desayuno('' @ breakfast (food day) @ ''), Almuerzo(''
               @ lunch (food day) @ ''), Merienda('' @ snack (food day) @ ''), Cena(''
               @ dinner (food day) @ ''), Otros('' @ other (food day) @ '')'')
        else JFalse,
        if truthy (mood day) then Str (''Sensaciones: '' @ mood day) else Str (mood day),
        Str (''Nivel de Actividad: '' @ activityLevelText (activityLevel day))])"

definition dayLine :: "(number \<Rightarrow> string) \<Rightarrow> nat \<Rightarrow> DailyLog \<Rightarrow> string" where
  "dayLine toStr index day =
     (let dd = dayData toStr day
      in if truthy dd then ''- '' @ dayName index @ '': '' @ dd else '''')"

definition weekLines :: "(number \<Rightarrow> string) \<Rightarrow> DailyLog list \<Rightarrow> string list" where
  "weekLines toStr wl =
     filter truthy (map (\<lambda>(index, day). dayLine toStr index day) (enumerate 0 wl))"

definition weekSection :: "(number \<Rightarrow> string) \<Rightarrow> DailyLog list \<Rightarrow> string" where
  "weekSection toStr wl = join [CHR 0x0A] (weekLines toStr wl)"

section \<open>\<open>generateSummary\<close>\<close>

definition hasData :: "DailyLog list \<Rightarrow> Metrics \<Rightarrow> bool" where
  "hasData wl m =
     (list_ex (\<lambda>day. js_gt (weight day) (Num 0) \<or> someFood (food day) \<or> truthy (mood day)) wl
      \<or> someMetric m)"

text \<open>
  What the run shows to the outside: a notice, the error log, and the one request to the
  provider with the model name and the weekly section of its prompt. The answer of the
  provider is an input of the model: it resolves with a text or it rejects.
\<close>

datatype effect = Alert string | ConsoleError | GenerateContent string string

datatype provider_outcome = Resolves string | Rejects

definition generateSummary ::
  "(number \<Rightarrow> string) \<Rightarrow> provider_outcome \<Rightarrow> app_state \<Rightarrow> app_state \<times> effect list" where
  "generateSummary toStr outcome s =
     (let s1 = s\<lparr>loading := True\<rparr>;
          s2 = s1\<lparr>summary := None\<rparr>
      in if \<not> hasData (days s) (metrics s) then
           (s2\<lparr>loading := False\<rparr>,
            [Alert ''Por favor, introduce algunos datos antes de generar un resumen.''])
         else
           let request = GenerateContent ''gemini-2.5-flash'' (weekSection toStr (days s))
           in (case outcome of
                 Resolves txt \<Rightarrow>
                   ((s2\<lparr>summary := Some \<lparr>content = txt\<rparr>\<rparr>)\<lparr>loading := False\<rparr>, [request])
               | Rejects \<Rightarrow>
                   (s2\<lparr>loading := False\<rparr>,
                    [request, ConsoleError,
                     Alert (''Hubo un error al generar el resumen. Por favor, int''
                            @ e_acute @ ''ntalo de nuevo.'')])))"

section \<open>The current weight at the two call sites of \<open>calculateProgress\<close>\<close>

text \<open>\<open>Array.prototype.pop\<close> on the filtered copy: its last element, if any.\<close>

definition pop :: "'a list \<Rightarrow> 'a option" where
  "pop xs = (if xs = [] then None else Some (last xs))"

text \<open>\<open>handleShareSummary\<close>, the progress bar of the exported document.\<close>

definition shareLastWeight :: "UserProfile \<Rightarrow> DailyLog list \<Rightarrow> number" where
  "shareLastWeight profile wl =
     (case pop (filter (\<lambda>d. js_gt (weight d) (Num 0)) wl) of
        None \<Rightarrow> initialWeight profile
      | Some d \<Rightarrow> weight d)"

definition shareProgress ::
  "(number \<Rightarrow> string) \<Rightarrow> UserProfile \<Rightarrow> DailyLog list \<Rightarrow> progress_result" where
  "shareProgress toStr profile wl =
     calculateProgress toStr (initialWeight profile) (shareLastWeight profile wl)
       (weightGoal profile)"

text \<open>\<open>TrackerScreen\<close>, the widget on the screen.\<close>

definition trackerLastWeight :: "UserProfile \<Rightarrow> DailyLog list \<Rightarrow> number" where
  "trackerLastWeight profile wl =
     (case pop (filter (\<lambda>d. js_gt (weight d) (Num 0)) wl) of
        None \<Rightarrow> initialWeight profile
      | Some d \<Rightarrow> weight d)"

definition trackerProgress ::
  "(number \<Rightarrow> string) \<Rightarrow> UserProfile \<Rightarrow> DailyLog list \<Rightarrow> progress_result" where
  "trackerProgress toStr profile wl =
     calculateProgress toStr (initialWeight profile) (trackerLastWeight profile wl)
       (weightGoal profile)"

section \<open>Reachable states\<close>

inductive reachable :: "app_state \<Rightarrow> bool" where
  r_mount: "reachable (mount storedLog storedMetrics)"
| r_log: "reachable s \<Longrightarrow> handleLogChange inp s = Inr s' \<Longrightarrow> reachable s'"
| r_food: "reachable s \<Longrightarrow> handleFoodChange f v s = Inr s' \<Longrightarrow> reachable s'"
| r_metrics: "reachable s \<Longrightarrow> reachable (handleMetricsChange mf v s)"
| r_week: "reachable s \<Longrightarrow> reachable (handleNewWeek confirmed s)"
| r_prev: "reachable s \<Longrightarrow> reachable (prevDay s)"
| r_next: "reachable s \<Longrightarrow> reachable (nextDay s)"
| r_summary: "reachable s \<Longrightarrow> reachable (fst (generateSummary toStr outcome s))"

section \<open>Concrete inputs\<close>

text \<open>
  \<open>ToString\<close> on the numbers that print without fraction digits or an exponent:
  \<open>NaN\<close>, the infinities and the integers of magnitude below \<open>10^21\<close>. It is the
  printer of the closed examples, which print such numbers only; the general theorems
  hold for every printer.
\<close>

definition integerToString :: "number \<Rightarrow> string" where
  "integerToString x =
     (case x of
        NaN \<Rightarrow> ''NaN''
      | PInf \<Rightarrow> ''Infinity''
      | NInf \<Rightarrow> ''-Infinity''
      | Num r \<Rightarrow> (if r < 0 then ''-'' else '''') @ decimal (nat \<lfloor>\<bar>r\<bar>\<rfloor>))"

text \<open>A new install on which the weight box of Monday has been emptied.\<close>

definition clearedWeight :: app_state where
  "clearedWeight = projr (handleLogChange (WeightInput '''') (mount None None))"

text \<open>A new install on which \<open>-5\<close> has been typed into the weight box of Monday.\<close>

definition negativeWeight :: app_state where
  "negativeWeight = projr (handleLogChange (WeightInput ''-5'') (mount None None))"

text \<open>A week in which only Thursday has a weight, 68, and a mood.\<close>

definition thursdayOnly :: "DailyLog list" where
  "thursdayOnly =
     (replicate 7 initialDailyLog)[3 := initialDailyLog\<lparr>weight := Num 68, mood := ''tired''\<rparr>]"

text \<open>A week given by its seven weights, everything else blank.\<close>

definition weekOf :: "number list \<Rightarrow> DailyLog list" where
  "weekOf ws = map (\<lambda>w. initialDailyLog\<lparr>weight := w\<rparr>) ws"

definition ana :: UserProfile where
  "ana = \<lparr>name = ''Ana'', age = Num 30, objective = ''Perder peso'',
          initialWeight = Num 80, weightGoal = Num 70\<rparr>"

text \<open>A blank week in which every day has been set to \<open>Muy Activo\<close>.\<close>

definition veryActiveWeek :: "DailyLog list" where
  "veryActiveWeek = replicate 7 (initialDailyLog\<lparr>activityLevel := Muy_Activo\<rparr>)"

text \<open>A new install on which a breakfast has been typed for Monday.\<close>

definition breakfastTyped :: app_state where
  "breakfastTyped = projr (handleFoodChange Breakfast ''avena'' (mount None None))"

section \<open>Properties of the rounding\<close>

lemma rne_of_int [simp]: "rne (of_int k) = k"
  by (simp add: rne_def)

lemma rne_bounds: "\<lfloor>x\<rfloor> \<le> rne x" "rne x \<le> \<lfloor>x\<rfloor> + 1"
  by (simp_all add: rne_def Let_def)

lemma rne_mono: "x \<le> y \<Longrightarrow> rne x \<le> rne y"
proof -
  assume xy: "x \<le> y"
  then have "\<lfloor>x\<rfloor> \<le> \<lfloor>y\<rfloor>" by (rule floor_mono)
  then consider "\<lfloor>x\<rfloor> < \<lfloor>y\<rfloor>" | "\<lfloor>x\<rfloor> = \<lfloor>y\<rfloor>" by linarith
  then show ?thesis
  proof cases
    case 1
    then have "rne x \<le> \<lfloor>y\<rfloor>" using rne_bounds(2) [of x] by linarith
    then show ?thesis using rne_bounds(1) [of y] by linarith
  next
    case 2
    with xy show ?thesis by (auto simp: rne_def Let_def)
  qed
qed

lemma ulp_pos [simp]: "0 < ulp a"
  by (simp add: ulp_def)

lemma ulp_nonneg [simp]: "0 \<le> ulp a"
  by (simp add: ulp_def)

lemma ulp_neq0 [simp]: "ulp a \<noteq> 0"
  by (simp add: ulp_def)

lemma ulp_times: "2 powi (binade a - 52 + k) = 2 powi k * ulp a"
  unfolding ulp_def using power_int_add [of "2::real" k "binade a - 52"] by (simp add: add.commute)

lemma two_powr_int: "(2::real) powr real_of_int k = 2 powi k"
  by (rule powr_real_of_int') simp_all

lemma binade_upper:
  assumes "0 < a"
  shows "a < 2 powi (binade a + 1)"
proof -
  have "a < 2 powr (real_of_int \<lfloor>log 2 a\<rfloor> + 1)"
    using floor_log_eq_powr_iff [of a 2 "\<lfloor>log 2 a\<rfloor>"] assms by simp
  also have "\<dots> = 2 powi (\<lfloor>log 2 a\<rfloor> + 1)"
    using two_powr_int [of "\<lfloor>log 2 a\<rfloor> + 1"] by simp
  also have "\<dots> \<le> 2 powi (binade a + 1)"
    by (intro power_int_increasing) (simp_all add: binade_def)
  finally show ?thesis .
qed

lemma binade_lower:
  assumes "0 < a" "- 1022 \<le> \<lfloor>log 2 a\<rfloor>"
  shows "2 powi (binade a) \<le> a"
proof -
  have "binade a = \<lfloor>log 2 a\<rfloor>" using assms(2) by (simp add: binade_def)
  moreover have "2 powr (real_of_int \<lfloor>log 2 a\<rfloor>) \<le> a"
    using floor_log_eq_powr_iff [of a 2 "\<lfloor>log 2 a\<rfloor>"] assms by simp
  ultimately show ?thesis by (simp add: two_powr_int)
qed

lemma binade_mono: "0 < x \<Longrightarrow> x \<le> y \<Longrightarrow> binade x \<le> binade y"
  unfolding binade_def by (intro max.mono floor_mono log_mono) simp_all

lemma binade_ge: "- 1022 \<le> binade a"
  by (simp add: binade_def)

lemma rd_pos_eq: "0 < a \<Longrightarrow> rd a = of_int (rne (a / ulp a)) * ulp a"
  by (simp add: rd_def)

lemma rd_upper:
  assumes "0 < a"
  shows "rd a \<le> 2 powi (binade a + 1)"
proof -
  have "2 powi (binade a + 1) = 2 powi 53 * ulp a"
    using ulp_times [of a 53] by (simp add: add.commute)
  then have e: "2 powi (binade a + 1) / ulp a = of_int (2 ^ 53)"
    by simp
  have "a / ulp a \<le> 2 powi (binade a + 1) / ulp a"
    using binade_upper [OF assms] by (simp add: divide_right_mono)
  then have "rne (a / ulp a) \<le> rne (of_int (2 ^ 53))"
    unfolding e by (rule rne_mono)
  then have "rne (a / ulp a) \<le> 2 ^ 53" by (simp only: rne_of_int)
  then have "of_int (rne (a / ulp a)) * ulp a \<le> of_int (2 ^ 53) * ulp a"
    by (intro mult_right_mono) (simp_all add: less_imp_le)
  then show ?thesis
    using \<open>2 powi (binade a + 1) = 2 powi 53 * ulp a\<close> assms by (simp add: rd_pos_eq)
qed

lemma rd_lower:
  assumes "0 < a" "- 1022 \<le> \<lfloor>log 2 a\<rfloor>"
  shows "2 powi (binade a) \<le> rd a"
proof -
  have p: "2 powi (binade a) = 2 powi 52 * ulp a"
    using ulp_times [of a 52] by simp
  then have e: "2 powi (binade a) / ulp a = of_int (2 ^ 52)"
    by simp
  have "2 powi (binade a) / ulp a \<le> a / ulp a"
    using binade_lower [OF assms] by (simp add: divide_right_mono)
  then have "rne (of_int (2 ^ 52)) \<le> rne (a / ulp a)"
    unfolding e by (rule rne_mono)
  then have "2 ^ 52 \<le> rne (a / ulp a)" by (simp only: rne_of_int)
  then have "of_int (2 ^ 52) * ulp a \<le> of_int (rne (a / ulp a)) * ulp a"
    by (intro mult_right_mono) (simp_all add: less_imp_le)
  then show ?thesis
    using p assms by (simp add: rd_pos_eq)
qed

lemma rd_mono_pos:
  assumes "0 < x" "x \<le> y"
  shows "rd x \<le> rd y"
proof -
  have y: "0 < y" using assms by simp
  have "binade x \<le> binade y" using assms by (rule binade_mono)
  then consider "binade x = binade y" | "binade x < binade y" by linarith
  then show ?thesis
  proof cases
    case 1
    then have u: "ulp x = ulp y" by (simp add: ulp_def)
    have "x / ulp y \<le> y / ulp y" using assms(2) by (simp add: divide_right_mono)
    then have "rne (x / ulp y) \<le> rne (y / ulp y)" by (rule rne_mono)
    then have "of_int (rne (x / ulp y)) * ulp y \<le> of_int (rne (y / ulp y)) * ulp y"
      by (intro mult_right_mono) (simp_all add: less_imp_le)
    then show ?thesis using assms(1) y u by (simp add: rd_pos_eq)
  next
    case 2
    then have "- 1022 < binade y" using binade_ge [of x] by linarith
    then have l: "- 1022 \<le> \<lfloor>log 2 y\<rfloor>" unfolding binade_def by linarith
    have "rd x \<le> 2 powi (binade x + 1)" using assms(1) by (rule rd_upper)
    also have "\<dots> \<le> 2 powi (binade y)"
      using 2 by (intro power_int_increasing) simp_all
    also have "\<dots> \<le> rd y" using y l by (rule rd_lower)
    finally show ?thesis .
  qed
qed

lemma rd_0 [simp]: "rd 0 = 0"
  by (simp add: rd_def)

lemma rd_nonneg: "0 \<le> x \<Longrightarrow> 0 \<le> rd x"
proof (cases "x = 0")
  case False
  assume "0 \<le> x"
  with False have x: "0 < x" by simp
  have "0 \<le> x / ulp x" using x by (intro divide_nonneg_pos) simp_all
  then have "0 \<le> \<lfloor>x / ulp x\<rfloor>" by simp
  then have "0 \<le> rne (x / ulp x)" using rne_bounds(1) [of "x / ulp x"] by linarith
  then show ?thesis using x by (simp add: rd_pos_eq)
qed simp

lemma rd_minus: "rd (- x) = - rd x"
  by (simp add: rd_def sgn_minus)

lemma rd_mono: "x \<le> y \<Longrightarrow> rd x \<le> rd y"
proof -
  assume xy: "x \<le> y"
  consider "0 < x" | "x \<le> 0" "0 \<le> y" | "y < 0" using xy by linarith
  then show ?thesis
  proof cases
    case 1
    then show ?thesis using xy by (rule rd_mono_pos)
  next
    case 2
    have "rd x = - rd (- x)" by (simp add: rd_minus)
    moreover have "0 \<le> rd (- x)" using 2(1) by (intro rd_nonneg) simp
    moreover have "0 \<le> rd y" using 2(2) by (rule rd_nonneg)
    ultimately show ?thesis by linarith
  next
    case 3
    then have "rd (- y) \<le> rd (- x)" using xy by (intro rd_mono_pos) simp_all
    then show ?thesis by (simp add: rd_minus)
  qed
qed


lemma rd_exact:
  assumes "0 < m" "m < 2 ^ 53" "- 1074 \<le> k"
  shows "rd (real m * 2 powi k) = real m * 2 powi k"
proof -
  let ?a = "real m * 2 powi k"
  have a: "0 < ?a" using assms(1) by simp
  have "real m < real (2 ^ 53)" using assms(2) by (simp only: of_nat_less_iff)
  then have "real m < 2 ^ 53" by simp
  then have "?a < 2 ^ 53 * 2 powi k" by (intro mult_strict_right_mono) simp_all
  also have "\<dots> = 2 powi (53 + k)" using power_int_add [of "2::real" 53 k] by simp
  finally have ub: "?a < 2 powi (53 + k)" .
  have "2 powr real_of_int \<lfloor>log 2 ?a\<rfloor> \<le> ?a"
    using floor_log_eq_powr_iff [of ?a 2 "\<lfloor>log 2 ?a\<rfloor>"] a by simp
  then have "2 powi \<lfloor>log 2 ?a\<rfloor> < (2::real) powi (53 + k)"
    using ub by (simp add: two_powr_int)
  then have "\<lfloor>log 2 ?a\<rfloor> < 53 + k"
  proof (rule contrapos_pp)
    assume "\<not> \<lfloor>log 2 ?a\<rfloor> < 53 + k"
    then have "53 + k \<le> \<lfloor>log 2 ?a\<rfloor>" by linarith
    then have "(2::real) powi (53 + k) \<le> 2 powi \<lfloor>log 2 ?a\<rfloor>"
      by (intro power_int_increasing) simp_all
    then show "\<not> 2 powi \<lfloor>log 2 ?a\<rfloor> < (2::real) powi (53 + k)" by linarith
  qed
  then have "binade ?a - 52 \<le> k" using assms(3) unfolding binade_def by linarith
  then have j: "k = binade ?a - 52 + int (nat (k - (binade ?a - 52)))" by simp
  define j where "j = nat (k - (binade ?a - 52))"
  note j = j [folded j_def]
  define u where "u = ulp ?a"
  have u: "0 < u" by (simp add: u_def)
  have "2 powi (binade ?a - 52 + int j) = 2 powi (int j) * u"
    unfolding u_def by (rule ulp_times)
  then have pk: "2 powi k = 2 ^ j * u" using j by simp
  have "real m * (2 ^ j * u) / u = real m * 2 ^ j" using u by simp
  then have q: "?a / u = of_int (int m * 2 ^ j)" unfolding pk by simp
  have "rne (?a / u) = int m * 2 ^ j" unfolding q by (rule rne_of_int)
  then have "rd ?a = of_int (int m * 2 ^ j) * u" using a by (simp add: rd_pos_eq u_def)
  also have "\<dots> = real m * (2 ^ j * u)" by simp
  also have "\<dots> = ?a" unfolding pk ..
  finally show ?thesis .
qed

lemma rd_smallest: "rd (2 powi (- 1074)) = 2 powi (- 1074)"
proof -
  have "rd (real 1 * 2 powi (- 1074)) = real 1 * 2 powi (- 1074)"
    by (rule rd_exact) simp_all
  then show ?thesis by (simp only: of_nat_1 mult_1)
qed

lemma rd_nat:
  assumes "n < 2 ^ 53"
  shows "rd (real n) = real n"
proof (cases "n = 0")
  case False
  then show ?thesis using rd_exact [of n 0] assms by simp
qed simp

lemma double_multiple:
  assumes "rd x = x"
  shows "\<exists>j::int. x = of_int j * 2 powi (- 1074)"
proof (cases "x = 0")
  case True
  then show ?thesis by (intro exI [of _ 0]) simp
next
  case False
  let ?e = "binade \<bar>x\<bar>"
  define i where "i = nat (?e + 1022)"
  have i: "?e - 52 = - 1074 + int i"
    using binade_ge [of "\<bar>x\<bar>"] by (simp add: i_def)
  have u: "ulp \<bar>x\<bar> = 2 ^ i * 2 powi (- 1074)"
    unfolding ulp_def i using power_int_add [of "2::real" "- 1074" "int i"] by simp
  have "x = sgn x * (of_int (rne (\<bar>x\<bar> / ulp \<bar>x\<bar>)) * ulp \<bar>x\<bar>)"
    using assms False by (simp add: rd_def)
  also have "\<dots> = of_int (sgn (if x < 0 then - 1 else 1) * rne (\<bar>x\<bar> / ulp \<bar>x\<bar>) * 2 ^ i) * 2 powi (- 1074)"
    using False unfolding u by (simp add: sgn_if)
  finally show ?thesis by blast
qed

lemma double_gap:
  assumes "rd x = x" "rd y = y" "x < y"
  shows "2 powi (- 1074) \<le> y - x"
proof -
  obtain i j :: int where ij: "x = of_int i * 2 powi (- 1074)" "y = of_int j * 2 powi (- 1074)"
    using double_multiple assms(1,2) by blast
  have "of_int i * 2 powi (- 1074) < of_int j * (2::real) powi (- 1074)"
    using assms(3) ij by simp
  then have "i < j" by (simp add: mult_less_cancel_right)
  then have "1 \<le> real_of_int (j - i)" by simp
  then have "1 * 2 powi (- 1074) \<le> real_of_int (j - i) * 2 powi (- 1074)"
    by (intro mult_right_mono) simp_all
  then show ?thesis unfolding ij by (simp add: algebra_simps)
qed

lemma rd_diff_pos:
  assumes "rd x = x" "rd y = y" "x < y"
  shows "0 < rd (y - x)"
proof -
  have "rd (2 powi (- 1074)) \<le> rd (y - x)"
    using double_gap [OF assms] by (rule rd_mono)
  then have "2 powi (- 1074) \<le> rd (y - x)" by (simp only: rd_smallest)
  moreover have "(0::real) < 2 powi (- 1074)" by (rule zero_less_power_int) simp
  ultimately show ?thesis by linarith
qed


lemma rd_abs: "\<bar>rd x\<bar> = rd \<bar>x\<bar>"
proof (cases "0 \<le> x")
  case True
  then show ?thesis using rd_nonneg [of x] by simp
next
  case False
  then have "0 \<le> rd (- x)" by (intro rd_nonneg) simp
  then show ?thesis using False by (simp add: rd_minus)
qed

lemma is_double_iff: "is_double x \<longleftrightarrow> rd x = x \<and> \<bar>x\<bar> < 2 ^ 1024"
  by (auto simp: is_double_def round64_def)

lemma round64_finite: "\<bar>rd x\<bar> < 2 ^ 1024 \<Longrightarrow> round64 x = Num (rd x)"
  by (simp add: round64_def)

lemma round64_not_NaN [simp]: "round64 x \<noteq> NaN"
  by (simp add: round64_def)

lemma round64_nat:
  assumes "n < 2 ^ 53"
  shows "round64 (real n) = Num (real n)"
proof -
  have "real n < real (2 ^ 53)" using assms by (simp only: of_nat_less_iff)
  then have "\<bar>real n\<bar> < 2 ^ 1024" by simp
  then show ?thesis using rd_nat [OF assms] by (simp add: round64_def)
qed

lemma round64_minus: "round64 (- x) = js_neg (round64 x)"
proof (cases "x = 0")
  case False
  then show ?thesis by (simp add: round64_def rd_minus)
qed (simp add: round64_def)

lemma round64_numeral [simp]:
  assumes "(numeral w :: nat) < 2 ^ 53"
  shows "round64 (numeral w) = Num (numeral w)"
proof -
  have "round64 (real (numeral w)) = Num (real (numeral w))"
    using assms by (rule round64_nat)
  then show ?thesis by (simp only: of_nat_numeral)
qed

lemma round64_neg_numeral [simp]:
  assumes "(numeral w :: nat) < 2 ^ 53"
  shows "round64 (- numeral w) = Num (- numeral w)"
  using round64_numeral [OF assms] by (simp only: round64_minus js_neg.simps)

lemma round64_0 [simp]: "round64 0 = Num 0"
  by (simp add: round64_def)

lemma round64_1 [simp]: "round64 1 = Num 1"
  using round64_nat [of 1] by simp

lemma round64_half [simp]: "round64 (1 / 2) = Num (1 / 2)"
proof -
  have "rd (real 1 * 2 powi (- 1)) = real 1 * 2 powi (- 1)"
    by (rule rd_exact) simp_all
  then have "rd (1 / 2) = 1 / 2" by (simp add: inverse_eq_divide)
  then show ?thesis by (simp add: round64_def)
qed

text \<open>Overflow to infinity and underflow to zero.\<close>

lemma round64_overflow:
  assumes "2 ^ 1024 \<le> x"
  shows "round64 x = PInf"
proof -
  have "rd (real 1 * 2 powi 1024) = real 1 * 2 powi 1024"
    by (rule rd_exact) simp_all
  then have "rd (2 ^ 1024) = 2 ^ 1024" by simp
  moreover have "rd (2 ^ 1024) \<le> rd x" using assms by (rule rd_mono)
  ultimately have "2 ^ 1024 \<le> rd x" by simp
  moreover have "(0::real) < 2 ^ 1024" by simp
  then have "\<not> x < 0" using assms by linarith
  ultimately show ?thesis by (simp add: round64_def)
qed

lemma rne_small:
  assumes "y < 1 / 2" "0 \<le> y"
  shows "rne y = 0"
proof -
  have "\<lfloor>y\<rfloor> = 0" using assms by (intro floor_unique) simp_all
  then show ?thesis using assms(1) by (simp add: rne_def Let_def)
qed

lemma round64_underflow:
  assumes "0 < x" "x < 2 powi (- 1075)"
  shows "round64 x = Num 0"
proof -
  have "\<lfloor>log 2 x\<rfloor> < - 1022"
  proof (rule ccontr)
    assume "\<not> \<lfloor>log 2 x\<rfloor> < - 1022"
    then have l: "- 1022 \<le> \<lfloor>log 2 x\<rfloor>" by simp
    have "(2::real) powi (- 1075) \<le> 2 powi (binade x)"
      using binade_ge [of x] by (intro power_int_increasing) simp_all
    also have "\<dots> \<le> x" using assms(1) l by (rule binade_lower)
    finally show False using assms(2) by simp
  qed
  then have "binade x = - 1022" by (simp add: binade_def)
  then have u: "ulp x = 2 powi (- 1074)" by (simp add: ulp_def)
  have "2 powi (- 1074) = 2 * (2::real) powi (- 1075)"
    using power_int_add [of "2::real" 1 "- 1075"] by simp
  then have "x / ulp x < 1 / 2" using assms(2) unfolding u by (simp add: field_simps)
  moreover have "0 \<le> x / ulp x" using assms(1) by (intro divide_nonneg_pos) simp_all
  ultimately have "rne (x / ulp x) = 0"
    by (rule rne_small)
  then have "rd x = 0" using assms(1) by (simp add: rd_pos_eq)
  then show ?thesis by (simp add: round64_def)
qed


section \<open>Properties of the progress calculator\<close>

lemma toFixed2_5: "toFixed2 toStr (Num 5) = ''5.00''"
  by (simp add: toFixed2_def decimal.simps)

text \<open>
  Claim C8. \<open>calculateProgress(80, 75, 70)\<close> returns the progress \<open>50\<close> and the sentence
  of the loss direction saying that 5.00 kg have been lost and that 5.00 kg are left to
  the goal.
\<close>

theorem calculateProgress_80_75_70:
  "calculateProgress toStr (Num 80) (Num 75) (Num 70) =
     \<lparr>progress = Num 50,
      progressText = ''Has perdido 5.00 kg. '' @ inv_excl @ ''Te faltan 5.00 kg para tu meta!''\<rparr>"
  by (simp add: calculateProgress_def js_eq_def js_gt_def js_le_def js_sub_def
      Math_max_def Math_min_def toFixed2_5)

text \<open>
  The distance between two different positive binary64 weights is a positive finite
  number.
\<close>

lemma totalDistance:
  assumes "is_double I" "is_double G" "0 < I" "0 < G" "I \<noteq> G"
  shows "js_abs (round64 (G - I)) = Num (rd \<bar>G - I\<bar>)"
    and "0 < rd \<bar>G - I\<bar>"
    and "rd \<bar>G - I\<bar> < 2 ^ 1024"
proof -
  have I: "rd I = I" "\<bar>I\<bar> < 2 ^ 1024" and G: "rd G = G" "\<bar>G\<bar> < 2 ^ 1024"
    using assms(1,2) by (simp_all add: is_double_iff)
  show pos: "0 < rd \<bar>G - I\<bar>"
  proof (cases "I < G")
    case True
    then show ?thesis using rd_diff_pos [OF I(1) G(1)] by simp
  next
    case False
    then have "G < I" using assms(5) by simp
    then show ?thesis using rd_diff_pos [OF G(1) I(1)] by simp
  qed
  have "\<bar>G - I\<bar> \<le> max G I" using assms(3,4) by simp
  then have "rd \<bar>G - I\<bar> \<le> rd (max G I)" by (rule rd_mono)
  also have "\<dots> = max G I" using I(1) G(1) by (simp add: max_def)
  also have "\<dots> < 2 ^ 1024" using I(2) G(2) by (auto simp: max_def abs_less_iff)
  finally show fin: "rd \<bar>G - I\<bar> < 2 ^ 1024" .
  have "\<bar>rd (G - I)\<bar> < 2 ^ 1024" using fin by (simp add: rd_abs)
  then have "round64 (G - I) = Num (rd (G - I))"
    by (rule round64_finite)
  then show "js_abs (round64 (G - I)) = Num (rd \<bar>G - I\<bar>)"
    by (simp add: rd_abs)
qed

















section \<open>The current weight\<close>

lemma last_filter_highest:
  assumes "i < length xs" "P (xs ! i)" "\<forall>j. i < j \<and> j < length xs \<longrightarrow> \<not> P (xs ! j)"
  shows "pop (filter P xs) = Some (xs ! i)"
proof -
  have xs: "xs = take i xs @ xs ! i # drop (Suc i) xs"
    using assms(1) by (simp add: id_take_nth_drop)
  have "\<forall>x \<in> set (drop (Suc i) xs). \<not> P x"
  proof
    fix x assume "x \<in> set (drop (Suc i) xs)"
    then obtain k where k: "k < length (drop (Suc i) xs)" "x = drop (Suc i) xs ! k"
      by (auto simp: in_set_conv_nth)
    then have "x = xs ! (Suc i + k)" using assms(1) by simp
    moreover have "Suc i + k < length xs" using k(1) by simp
    ultimately show "\<not> P x" using assms(3) by simp
  qed
  then have "filter P (drop (Suc i) xs) = []" by (simp add: filter_empty_conv)
  then have "filter P xs = filter P (take i xs) @ [xs ! i]"
    using assms(2) by (subst xs) simp
  then show ?thesis by (simp add: pop_def)
qed

lemma pop_filter_none:
  assumes "\<forall>i<length xs. \<not> P (xs ! i)"
  shows "pop (filter P xs) = None"
proof -
  have "filter P xs = []" using assms by (auto simp: filter_empty_conv in_set_conv_nth)
  then show ?thesis by (simp add: pop_def)
qed

text \<open>
  Claim C6. At both call sites the current weight handed to \<open>calculateProgress\<close> is the
  weight of the day with the highest index among those whose weight is greater than
  \<open>0\<close>, and the profile's \<open>initialWeight\<close> when no day has such a weight; the two call
  sites compute the same progress.
\<close>

theorem lastWeight_rule:
  "(i < length wl \<and> js_gt (weight (wl ! i)) (Num 0)
      \<and> (\<forall>j. i < j \<and> j < length wl \<longrightarrow> \<not> js_gt (weight (wl ! j)) (Num 0))
     \<longrightarrow> shareLastWeight profile wl = weight (wl ! i)
         \<and> trackerLastWeight profile wl = weight (wl ! i))
   \<and> ((\<forall>i<length wl. \<not> js_gt (weight (wl ! i)) (Num 0))
     \<longrightarrow> shareLastWeight profile wl = initialWeight profile
         \<and> trackerLastWeight profile wl = initialWeight profile)
   \<and> shareProgress toStr profile wl = trackerProgress toStr profile wl"
proof (intro conjI impI)
  assume h: "i < length wl \<and> js_gt (weight (wl ! i)) (Num 0)
      \<and> (\<forall>j. i < j \<and> j < length wl \<longrightarrow> \<not> js_gt (weight (wl ! j)) (Num 0))"
  then have p: "pop (filter (\<lambda>d. js_gt (weight d) (Num 0)) wl) = Some (wl ! i)"
    by (intro last_filter_highest) simp_all
  show "shareLastWeight profile wl = weight (wl ! i)"
    by (simp add: shareLastWeight_def p)
  show "trackerLastWeight profile wl = weight (wl ! i)"
    by (simp add: trackerLastWeight_def p)
next
  assume h: "\<forall>i<length wl. \<not> js_gt (weight (wl ! i)) (Num 0)"
  then have p: "pop (filter (\<lambda>d. js_gt (weight d) (Num 0)) wl) = None"
    by (rule pop_filter_none)
  show "shareLastWeight profile wl = initialWeight profile"
    by (simp add: shareLastWeight_def p)
  show "trackerLastWeight profile wl = initialWeight profile"
    by (simp add: trackerLastWeight_def p)
next
  show "shareProgress toStr profile wl = trackerProgress toStr profile wl"
    by (simp add: shareProgress_def trackerProgress_def shareLastWeight_def
        trackerLastWeight_def)
qed

theorem lastWeight_rule_witness:
  "shareLastWeight ana (weekOf [Num 79, Num 0, Num 78, NaN, Num 0, Num (- 1), Num 0]) = Num 78
   \<and> trackerLastWeight ana (weekOf [Num 79, Num 0, Num 78, NaN, Num 0, Num (- 1), Num 0]) = Num 78
   \<and> shareLastWeight ana (weekOf [Num 0, Num 0, Num 0, NaN, Num 0, Num (- 1), Num 0]) = Num 80
   \<and> trackerLastWeight ana (weekOf [Num 0, Num 0, Num 0, NaN, Num 0, Num (- 1), Num 0]) = Num 80"
proof -
  let ?w = "weekOf [Num 79, Num 0, Num 78, NaN, Num 0, Num (- 1), Num 0]"
  let ?z = "weekOf [Num 0, Num 0, Num 0, NaN, Num 0, Num (- 1), Num 0]"
  have a: "(2::nat) < length ?w \<and> js_gt (weight (?w ! 2)) (Num 0)"
    by (simp add: weekOf_def js_gt_def)
  have b: "\<forall>j. 2 < j \<and> j < length ?w \<longrightarrow> \<not> js_gt (weight (?w ! j)) (Num 0)"
  proof (intro allI impI)
    fix j assume "2 < j \<and> j < length ?w"
    then have "j = 3 \<or> j = 4 \<or> j = 5 \<or> j = 6" by (auto simp: weekOf_def)
    then show "\<not> js_gt (weight (?w ! j)) (Num 0)"
      by (auto simp: weekOf_def js_gt_def)
  qed
  have c: "\<forall>i<length ?z. \<not> js_gt (weight (?z ! i)) (Num 0)"
  proof (intro allI impI)
    fix i assume "i < length ?z"
    then have "i = 0 \<or> i = 1 \<or> i = 2 \<or> i = 3 \<or> i = 4 \<or> i = 5 \<or> i = 6"
      by (auto simp: weekOf_def)
    then show "\<not> js_gt (weight (?z ! i)) (Num 0)"
      by (auto simp: weekOf_def js_gt_def)
  qed
  have w2: "weight (?w ! 2) = Num 78" by (simp add: weekOf_def)
  have i80: "initialWeight ana = Num 80" by (simp add: ana_def)
  from lastWeight_rule [of 2 ?w ana integerToString] a b w2
    lastWeight_rule [of 0 ?z ana integerToString] c i80
  show ?thesis by simp
qed

section \<open>Properties of \<open>generateSummary\<close>\<close>

text \<open>
  Claim C9. Whatever the state and whatever the provider answers, the run of
  \<open>generateSummary\<close> ends with \<open>loading\<close> false: on the no-data path, after a
  response has been stored, and after the call has failed.
\<close>

theorem generateSummary_clears_loading:
  "loading (fst (generateSummary toStr outcome s)) = False"
  by (cases outcome) (simp_all add: generateSummary_def Let_def)

lemma noData_message:
  assumes "\<not> hasData (days s) (metrics s)"
  shows "snd (generateSummary toStr outcome s)
           = [Alert ''Por favor, introduce algunos datos antes de generar un resumen.'']"
  using assms by (simp add: generateSummary_def Let_def)

lemma hasData_request:
  assumes "hasData (days s) (metrics s)"
  shows "hd (snd (generateSummary toStr outcome s))
           = GenerateContent ''gemini-2.5-flash'' (weekSection toStr (days s))"
    and "Alert ''Por favor, introduce algunos datos antes de generar un resumen.''
           \<notin> set (snd (generateSummary toStr outcome s))"
  using assms by (cases outcome; simp add: generateSummary_def Let_def)+

lemma hasData_iff:
  "hasData wl m \<longleftrightarrow>
     (\<exists>d \<in> set wl. js_gt (weight d) (Num 0)
        \<or> breakfast (food d) \<noteq> [] \<or> lunch (food d) \<noteq> [] \<or> snack (food d) \<noteq> []
        \<or> dinner (food d) \<noteq> [] \<or> other (food d) \<noteq> [] \<or> mood d \<noteq> [])
     \<or> strength m \<noteq> [] \<or> measurements m \<noteq> [] \<or> bmi m \<noteq> [] \<or> dailyActivity m \<noteq> []"
  by (auto simp: hasData_def someFood_def someMetric_def truthy_def list_ex_iff)

text \<open>Setting activity levels, to whatever values, does not change the check.\<close>

lemma hasData_activityLevel:
  "hasData (map (\<lambda>d. d\<lparr>activityLevel := f d\<rparr>) wl) m = hasData wl m"
  by (simp add: hasData_iff)

lemma days_mount_stored: "days (mount (Some ds) m) = ds"
  by (rule nth_equalityI) (simp_all add: days_def mount_def)

text \<open>
  Claim C10. When every day has weight \<open>0\<close>, empty food fields and an empty mood and
  every metrics field is empty, \<open>generateSummary\<close> only shows the no-data notice, sends
  no request and stores no summary, whatever the activity levels of the days are.
\<close>

theorem hasData_ignores_activityLevel:
  assumes "\<forall>d \<in> set (days s). weight d = Num 0 \<and> food d = food initialDailyLog \<and> mood d = []"
    and "metrics s = initialMetrics"
  shows "snd (generateSummary toStr outcome s)
           = [Alert ''Por favor, introduce algunos datos antes de generar un resumen.'']
         \<and> summary (fst (generateSummary toStr outcome s)) = None
         \<and> loading (fst (generateSummary toStr outcome s)) = False"
proof -
  have "\<not> hasData (days s) (metrics s)"
    using assms by (auto simp: hasData_iff initialDailyLog_def initialMetrics_def js_gt_def)
  then show ?thesis
    by (simp add: generateSummary_def Let_def)
qed

theorem hasData_ignores_activityLevel_witness:
  "map activityLevel (days (mount (Some veryActiveWeek) None)) = replicate 7 Muy_Activo
   \<and> snd (generateSummary integerToString (Resolves ''<h3>Informe</h3>'')
            (mount (Some veryActiveWeek) None))
       = [Alert ''Por favor, introduce algunos datos antes de generar un resumen.'']"
proof -
  have a: "\<forall>d \<in> set (days (mount (Some veryActiveWeek) None)).
             weight d = Num 0 \<and> food d = food initialDailyLog \<and> mood d = []"
    by (simp add: days_mount_stored veryActiveWeek_def initialDailyLog_def)
  have b: "metrics (mount (Some veryActiveWeek) None) = initialMetrics"
    by (simp add: mount_def)
  have c: "map activityLevel (days (mount (Some veryActiveWeek) None)) = replicate 7 Muy_Activo"
    by (simp add: days_mount_stored veryActiveWeek_def)
  from hasData_ignores_activityLevel [OF a b, of integerToString "Resolves ''<h3>Informe</h3>''"] c
  show ?thesis by simp
qed

section \<open>Properties of the weekly section of the prompt\<close>

lemma join_last_nonempty: "x \<noteq> [] \<Longrightarrow> join sep (xs @ [x]) \<noteq> []"
  by (induction sep xs rule: join.induct) auto

lemma filter_Boolean_snoc:
  "s \<noteq> [] \<Longrightarrow> filter_Boolean (vs @ [Str s]) = filter_Boolean vs @ [s]"
  by (induction vs rule: filter_Boolean.induct) (auto simp: truthy_def)

text \<open>The activity part is always there, so the text of a day is never empty.\<close>

lemma dayData_nonempty: "dayData toStr day \<noteq> []"
proof -
  let ?vs = "[if js_gt (weight day) (Num 0) then Str (''Peso: '' @ toStr (weight day) @ '' kg'')
        else JFalse,
        if someFood (food day) then
          Str (''Comidas: Desayuno('' @ breakfast (food day) @ ''), Almuerzo(''
               @ lunch (food day) @ ''), Merienda('' @ snack (food day) @ ''), Cena(''
               @ dinner (food day) @ ''), Otros('' @ other (food day) @ '')'')
        else JFalse,
        if truthy (mood day) then Str (''Sensaciones: '' @ mood day) else Str (mood day)]"
  let ?a = "''Nivel de Actividad: '' @ activityLevelText (activityLevel day)"
  have "dayData toStr day = join ''; '' (filter_Boolean (?vs @ [Str ?a]))"
    by (simp add: dayData_def)
  also have "\<dots> = join ''; '' (filter_Boolean ?vs @ [?a])"
    by (subst filter_Boolean_snoc) simp_all
  finally show ?thesis
    using join_last_nonempty [of ?a "''; ''" "filter_Boolean ?vs"] by simp
qed

text \<open>Hence no day is ever dropped from the list.\<close>

lemma weekLines_every_day: "length (weekLines toStr wl) = length wl"
proof -
  have "\<forall>x \<in> set (map (\<lambda>(index, day). dayLine toStr index day) (enumerate 0 wl)). truthy x"
    by (auto simp: dayLine_def Let_def truthy_def dayData_nonempty)
  then have "weekLines toStr wl = map (\<lambda>(index, day). dayLine toStr index day) (enumerate 0 wl)"
    unfolding weekLines_def by (intro filter_True)
  then show ?thesis by simp
qed

text \<open>
  Claim C1, at the week in which only Thursday has a weight and a mood. The claim has
  one line, for Thursday; the prompt that \<open>generateSummary\<close> sends has seven, the six
  blank days with their activity level alone.
\<close>

theorem weekLines_thursdayOnly:
  "weekLines toStr thursdayOnly =
     [''- Lunes: Nivel de Actividad: Moderado'',
      ''- Martes: Nivel de Actividad: Moderado'',
      ''- Mi'' @ e_acute @ ''rcoles: Nivel de Actividad: Moderado'',
      ''- Jueves: Peso: '' @ toStr (Num 68)
         @ '' kg; Sensaciones: tired; Nivel de Actividad: Moderado'',
      ''- Viernes: Nivel de Actividad: Moderado'',
      ''- S'' @ a_acute @ ''bado: Nivel de Actividad: Moderado'',
      ''- Domingo: Nivel de Actividad: Moderado'']
   \<and> snd (generateSummary toStr (Resolves txt) (mount (Some thursdayOnly) None))
       = [GenerateContent ''gemini-2.5-flash'' (weekSection toStr thursdayOnly)]"
proof
  show "weekLines toStr thursdayOnly =
     [''- Lunes: Nivel de Actividad: Moderado'',
      ''- Martes: Nivel de Actividad: Moderado'',
      ''- Mi'' @ e_acute @ ''rcoles: Nivel de Actividad: Moderado'',
      ''- Jueves: Peso: '' @ toStr (Num 68)
         @ '' kg; Sensaciones: tired; Nivel de Actividad: Moderado'',
      ''- Viernes: Nivel de Actividad: Moderado'',
      ''- S'' @ a_acute @ ''bado: Nivel de Actividad: Moderado'',
      ''- Domingo: Nivel de Actividad: Moderado'']"
    by (simp add: weekLines_def thursdayOnly_def numeral_eq_Suc enumerate_eq_zip
        dayLine_def dayData_def dayName_def dayNames_def initialDailyLog_def someFood_def
        truthy_def js_gt_def Let_def upt_rec)
  have "hasData thursdayOnly initialMetrics"
    by (simp add: hasData_def thursdayOnly_def numeral_eq_Suc initialDailyLog_def js_gt_def)
  then show "snd (generateSummary toStr (Resolves txt) (mount (Some thursdayOnly) None))
       = [GenerateContent ''gemini-2.5-flash'' (weekSection toStr thursdayOnly)]"
    by (simp add: generateSummary_def Let_def days_mount_stored) (simp add: mount_def)
qed

section \<open>Properties of the food update and of the week reset\<close>

lemma breakfastTyped_eq:
  "handleFoodChange Breakfast ''avena'' (mount None None) = Inr breakfastTyped"
  by (simp add: breakfastTyped_def handleFoodChange_def Let_def mount_def initialWeeklyLog_def)

text \<open>The day update writes to no object that existed before it.\<close>

lemma handleLogChange_store:
  assumes "handleLogChange inp s = Inr s'" "a < fresh s"
  shows "store s' a = store s a"
  using assms by (auto simp: handleLogChange_def Let_def split: if_splits)

text \<open>
  Claim C3, on a new install after a breakfast has been typed for Monday. The state is
  reachable, and the confirmed reset gives seven entries, blank metrics and no summary,
  but Monday still has the breakfast: the reset installs \<open>initialWeeklyLog\<close>, whose
  first day object the food update has written to.
\<close>

theorem handleNewWeek_keeps_food:
  "reachable (handleNewWeek True breakfastTyped)
   \<and> length (days (handleNewWeek True breakfastTyped)) = 7
   \<and> breakfast (food (days (handleNewWeek True breakfastTyped) ! 0)) = ''avena''
   \<and> days (handleNewWeek True breakfastTyped) \<noteq> replicate 7 initialDailyLog
   \<and> metrics (handleNewWeek True breakfastTyped) = initialMetrics
   \<and> summary (handleNewWeek True breakfastTyped) = None"
proof -
  have "reachable (handleNewWeek True breakfastTyped)"
    by (intro r_week r_food [OF r_mount breakfastTyped_eq])
  moreover have d: "days (handleNewWeek True breakfastTyped)
      = (replicate 7 initialDailyLog)
          [0 := initialDailyLog\<lparr>food := (food initialDailyLog)\<lparr>breakfast := ''avena''\<rparr>\<rparr>]"
    by (simp add: breakfastTyped_def handleNewWeek_def handleFoodChange_def Let_def mount_def
        initialWeeklyLog_def days_def setFood_def numeral_eq_Suc)
  moreover have "days (handleNewWeek True breakfastTyped) \<noteq> replicate 7 initialDailyLog"
    by (simp add: d numeral_eq_Suc initialDailyLog_def)
  moreover have "metrics (handleNewWeek True breakfastTyped) = initialMetrics"
    "summary (handleNewWeek True breakfastTyped) = None"
    by (simp_all add: handleNewWeek_def)
  ultimately show ?thesis by (simp add: numeral_eq_Suc)
qed

text \<open>
  Claim C4, on a new install. The food update for Monday changes, in place, the day
  object at the first address of the weekly log it started from, which is also the first
  address of \<open>initialWeeklyLog\<close>: read after the update, the old log and the constant
  are no longer blank.
\<close>

theorem handleFoodChange_writes_shared_day:
  "weeklyLog (mount None None) ! 0 \<in> set initialWeeklyLog
   \<and> store breakfastTyped (weeklyLog (mount None None) ! 0)
       \<noteq> store (mount None None) (weeklyLog (mount None None) ! 0)
   \<and> map (store breakfastTyped) (weeklyLog (mount None None)) \<noteq> days (mount None None)
   \<and> map (store breakfastTyped) initialWeeklyLog \<noteq> replicate 7 initialDailyLog"
  by (simp add: breakfastTyped_def handleFoodChange_def Let_def mount_def
      initialWeeklyLog_def days_def setFood_def numeral_eq_Suc initialDailyLog_def)

section \<open>Properties of \<open>parseFloat\<close>\<close>

lemma parseFloat_empty: "parseFloat [] = NaN"
proof -
  have "strDecimalLiteral (trimStart []) = None" by code_simp
  then show ?thesis by (simp add: parseFloat_def)
qed

lemma parseFloat_minus5: "parseFloat ''-5'' = Num (- 5)"
proof -
  have "strDecimalLiteral (trimStart ''-5'') = Some (Num (- 5))" by code_simp
  then show ?thesis by (simp add: parseFloat_def)
qed

text \<open>A literal beyond the binary64 range reads as infinity, one below it as zero.\<close>

lemma parseFloat_1e400: "parseFloat ''1e400'' = PInf"
proof -
  have "strDecimalLiteral (trimStart ''1e400'') = Some (Num (10 ^ 400))" by code_simp
  moreover have "(2::real) ^ 1024 \<le> 10 ^ 400" by simp
  ultimately show ?thesis by (simp only: parseFloat_def option.case number.case round64_overflow)
qed

lemma parseFloat_1e_400: "parseFloat ''1e-400'' = Num 0"
proof -
  have "strDecimalLiteral (trimStart ''1e-400'') = Some (Num (1 / 10 ^ 400))" by code_simp
  moreover have "(1::real) / 10 ^ 400 < 2 powi (- 1075)" by (simp add: power_int_minus field_simps)
  moreover have "(0::real) < 1 / 10 ^ 400" by simp
  ultimately show ?thesis by (simp only: parseFloat_def option.case number.case round64_underflow)
qed

section \<open>The heap discipline of reachable states\<close>

text \<open>Every address held by the current weekly log has been allocated.\<close>

lemma reachable_fresh:
  "reachable s \<Longrightarrow> 7 \<le> fresh s \<and> (\<forall>a \<in> set (weeklyLog s). a < fresh s)"
proof (induction rule: reachable.induct)
  case (r_mount storedLog storedMetrics)
  then show ?case
    by (cases storedLog) (auto simp: mount_def initialWeeklyLog_def)
next
  case (r_log s inp s')
  then show ?case
    by (fastforce simp: handleLogChange_def Let_def less_Suc_eq split: if_splits
        dest: set_update_subset_insert [THEN subsetD])
next
  case (r_food s f v s')
  then show ?case
    by (auto simp: handleFoodChange_def Let_def split: if_splits)
next
  case (r_metrics s mf v)
  then show ?case by (simp add: handleMetricsChange_def Let_def)
next
  case (r_week s confirmed)
  then show ?case by (auto simp: handleNewWeek_def initialWeeklyLog_def)
next
  case (r_prev s)
  then show ?case by (simp add: prevDay_def)
next
  case (r_next s)
  then show ?case by (simp add: nextDay_def)
next
  case (r_summary s toStr outcome)
  then show ?case
    by (cases outcome) (simp_all add: generateSummary_def Let_def)
qed

section \<open>Properties of \<open>handleLogChange\<close>\<close>

text \<open>
  The day update puts a new object into a new array: the day at the current index is
  the old one with the one field set, every other day is as before.
\<close>

lemma handleLogChange_days:
  assumes "\<forall>a \<in> set (weeklyLog s). a < fresh s" "currentDayIndex s < length (weeklyLog s)"
  shows "\<exists>s'. handleLogChange inp s = Inr s'
           \<and> days s' = (days s)[currentDayIndex s := setField inp (days s ! currentDayIndex s)]"
proof -
  let ?i = "currentDayIndex s"
  let ?s' = "s\<lparr>store := (store s)(fresh s := setField inp (store s (weeklyLog s ! ?i))),
               fresh := Suc (fresh s), weeklyLog := (weeklyLog s)[?i := fresh s]\<rparr>"
  have 1: "handleLogChange inp s = Inr ?s'"
    using assms(2) by (simp add: handleLogChange_def Let_def)
  have "days ?s' = (days s)[?i := setField inp (days s ! ?i)]"
  proof (rule nth_equalityI)
    show "length (days ?s') = length ((days s)[?i := setField inp (days s ! ?i)])"
      by (simp add: days_def)
  next
    fix k assume "k < length (days ?s')"
    then have k: "k < length (weeklyLog s)" by (simp add: days_def)
    then have "weeklyLog s ! k < fresh s" using assms(1) by simp
    then show "days ?s' ! k = (days s)[?i := setField inp (days s ! ?i)] ! k"
      using k assms(2) by (cases "k = ?i") (simp_all add: days_def)
  qed
  with 1 show ?thesis by blast
qed

text \<open>
  Claim C2, as amended. In a reachable state whose current index is within the log, the
  day update on the \<open>weight\<close> field stores \<open>parseFloat\<close> of the input string in that
  day's weight and leaves the other fields of that day, and the other days, as they
  were; when the input is empty or has no numeric prefix the stored weight is \<open>NaN\<close>.
\<close>

theorem handleLogChange_weight:
  assumes "reachable s" and "currentDayIndex s < length (weeklyLog s)"
  shows "\<exists>s'. handleLogChange (WeightInput v) s = Inr s'
           \<and> days s' = (days s)[currentDayIndex s :=
                          (days s ! currentDayIndex s)\<lparr>weight := parseFloat v\<rparr>]
           \<and> (v = [] \<or> strDecimalLiteral (trimStart v) = None
                \<longrightarrow> weight (days s' ! currentDayIndex s) = NaN)"
proof -
  from assms(1) have "\<forall>a \<in> set (weeklyLog s). a < fresh s"
    by (simp add: reachable_fresh)
  from handleLogChange_days [OF this assms(2), of "WeightInput v"]
  obtain s' where s': "handleLogChange (WeightInput v) s = Inr s'"
    "days s' = (days s)[currentDayIndex s :=
                  (days s ! currentDayIndex s)\<lparr>weight := parseFloat v\<rparr>]"
    by (auto simp: setField_def)
  have len: "currentDayIndex s < length (days s)"
    using assms(2) by (simp add: days_def)
  have "weight (days s' ! currentDayIndex s) = parseFloat v"
    using len by (simp add: s'(2))
  moreover have "v = [] \<or> strDecimalLiteral (trimStart v) = None \<longrightarrow> parseFloat v = NaN"
    by (auto simp: parseFloat_empty) (simp add: parseFloat_def)
  ultimately show ?thesis using s' by auto
qed

theorem handleLogChange_weight_witness:
  "reachable (mount None None)
   \<and> currentDayIndex (mount None None) < length (weeklyLog (mount None None))
   \<and> (\<exists>s'. handleLogChange (WeightInput '''') (mount None None) = Inr s'
          \<and> weight (days s' ! 0) = NaN)"
proof -
  have r: "reachable (mount None None)" by (rule r_mount)
  have i: "currentDayIndex (mount None None) < length (weeklyLog (mount None None))"
    by (simp add: mount_def initialWeeklyLog_def)
  have z: "currentDayIndex (mount None None) = 0" by (simp add: mount_def)
  from handleLogChange_weight [OF r i, of "''''"] r i z show ?thesis by auto
qed

text \<open>
  Claim C2 as stated fails: after the weight box is emptied, or after letters are typed
  into it, the stored weight is not \<open>0\<close>.
\<close>

theorem handleLogChange_empty_weight_not_zero:
  "weight (days (projr (handleLogChange (WeightInput '''') (mount None None))) ! 0) \<noteq> Num 0
   \<and> weight (days (projr (handleLogChange (WeightInput ''abc'') (mount None None))) ! 0) \<noteq> Num 0"
proof -
  have "strDecimalLiteral (trimStart ''abc'') = None" by code_simp
  then have "parseFloat ''abc'' = NaN" by (simp add: parseFloat_def)
  then show ?thesis
    by (simp add: handleLogChange_def mount_def initialWeeklyLog_def Let_def
        days_def setField_def parseFloat_empty)
qed

section \<open>The no-data check and weights that are not positive\<close>

lemma clearedWeight_eq:
  "handleLogChange (WeightInput '''') (mount None None) = Inr clearedWeight"
  by (simp add: clearedWeight_def handleLogChange_def Let_def mount_def initialWeeklyLog_def)

lemma negativeWeight_eq:
  "handleLogChange (WeightInput ''-5'') (mount None None) = Inr negativeWeight"
  by (simp add: negativeWeight_def handleLogChange_def Let_def mount_def initialWeeklyLog_def)

lemma clearedWeight_days:
  "days clearedWeight = (replicate 7 initialDailyLog)[0 := initialDailyLog\<lparr>weight := NaN\<rparr>]"
  by (simp add: clearedWeight_def handleLogChange_def mount_def initialWeeklyLog_def Let_def
      days_def setField_def parseFloat_empty numeral_eq_Suc)

lemma negativeWeight_days:
  "days negativeWeight = (replicate 7 initialDailyLog)[0 := initialDailyLog\<lparr>weight := Num (- 5)\<rparr>]"
  by (simp add: negativeWeight_def handleLogChange_def mount_def initialWeeklyLog_def Let_def
      days_def setField_def parseFloat_minus5 numeral_eq_Suc)

lemma clearedWeight_metrics: "metrics clearedWeight = initialMetrics"
  by (simp add: clearedWeight_def handleLogChange_def mount_def initialWeeklyLog_def Let_def)

lemma negativeWeight_metrics: "metrics negativeWeight = initialMetrics"
  by (simp add: negativeWeight_def handleLogChange_def mount_def initialWeeklyLog_def Let_def)

text \<open>
  Claim C5, as amended. \<open>generateSummary\<close> shows the no-data notice and sends no
  request when no day has a weight greater than \<open>0\<close>, a food field or a mood and no
  metrics field is filled in; in every other state its first effect is the request to
  the provider and the notice is not shown. A weight that is \<open>0\<close>, negative or
  \<open>NaN\<close> counts as not recorded.
\<close>

theorem generateSummary_skips_iff:
  "((\<forall>d \<in> set (days s). \<not> js_gt (weight d) (Num 0)
        \<and> breakfast (food d) = [] \<and> lunch (food d) = [] \<and> snack (food d) = []
        \<and> dinner (food d) = [] \<and> other (food d) = [] \<and> mood d = [])
     \<and> strength (metrics s) = [] \<and> measurements (metrics s) = []
     \<and> bmi (metrics s) = [] \<and> dailyActivity (metrics s) = []
    \<longrightarrow> snd (generateSummary toStr outcome s)
          = [Alert ''Por favor, introduce algunos datos antes de generar un resumen.''])
   \<and> (\<not> ((\<forall>d \<in> set (days s). \<not> js_gt (weight d) (Num 0)
        \<and> breakfast (food d) = [] \<and> lunch (food d) = [] \<and> snack (food d) = []
        \<and> dinner (food d) = [] \<and> other (food d) = [] \<and> mood d = [])
     \<and> strength (metrics s) = [] \<and> measurements (metrics s) = []
     \<and> bmi (metrics s) = [] \<and> dailyActivity (metrics s) = [])
    \<longrightarrow> hd (snd (generateSummary toStr outcome s))
          = GenerateContent ''gemini-2.5-flash'' (weekSection toStr (days s))
        \<and> Alert ''Por favor, introduce algunos datos antes de generar un resumen.''
          \<notin> set (snd (generateSummary toStr outcome s)))"
proof (intro conjI impI)
  assume "(\<forall>d \<in> set (days s). \<not> js_gt (weight d) (Num 0)
        \<and> breakfast (food d) = [] \<and> lunch (food d) = [] \<and> snack (food d) = []
        \<and> dinner (food d) = [] \<and> other (food d) = [] \<and> mood d = [])
     \<and> strength (metrics s) = [] \<and> measurements (metrics s) = []
     \<and> bmi (metrics s) = [] \<and> dailyActivity (metrics s) = []"
  then have "\<not> hasData (days s) (metrics s)" by (simp add: hasData_iff)
  then show "snd (generateSummary toStr outcome s)
          = [Alert ''Por favor, introduce algunos datos antes de generar un resumen.'']"
    by (rule noData_message)
next
  assume "\<not> ((\<forall>d \<in> set (days s). \<not> js_gt (weight d) (Num 0)
        \<and> breakfast (food d) = [] \<and> lunch (food d) = [] \<and> snack (food d) = []
        \<and> dinner (food d) = [] \<and> other (food d) = [] \<and> mood d = [])
     \<and> strength (metrics s) = [] \<and> measurements (metrics s) = []
     \<and> bmi (metrics s) = [] \<and> dailyActivity (metrics s) = [])"
  then have h: "hasData (days s) (metrics s)" by (subst hasData_iff) blast
  from hasData_request(1) [OF h]
  show "hd (snd (generateSummary toStr outcome s))
          = GenerateContent ''gemini-2.5-flash'' (weekSection toStr (days s))" .
next
  assume "\<not> ((\<forall>d \<in> set (days s). \<not> js_gt (weight d) (Num 0)
        \<and> breakfast (food d) = [] \<and> lunch (food d) = [] \<and> snack (food d) = []
        \<and> dinner (food d) = [] \<and> other (food d) = [] \<and> mood d = [])
     \<and> strength (metrics s) = [] \<and> measurements (metrics s) = []
     \<and> bmi (metrics s) = [] \<and> dailyActivity (metrics s) = [])"
  then have h: "hasData (days s) (metrics s)" by (subst hasData_iff) blast
  from hasData_request(2) [OF h]
  show "Alert ''Por favor, introduce algunos datos antes de generar un resumen.''
          \<notin> set (snd (generateSummary toStr outcome s))" .
qed

theorem generateSummary_skips_iff_witness:
  "snd (generateSummary integerToString Rejects negativeWeight)
     = [Alert ''Por favor, introduce algunos datos antes de generar un resumen.'']
   \<and> hd (snd (generateSummary integerToString Rejects (mount (Some thursdayOnly) None)))
     = GenerateContent ''gemini-2.5-flash'' (weekSection integerToString thursdayOnly)"
proof -
  have a: "(\<forall>d \<in> set (days negativeWeight). \<not> js_gt (weight d) (Num 0)
        \<and> breakfast (food d) = [] \<and> lunch (food d) = [] \<and> snack (food d) = []
        \<and> dinner (food d) = [] \<and> other (food d) = [] \<and> mood d = [])
     \<and> strength (metrics negativeWeight) = [] \<and> measurements (metrics negativeWeight) = []
     \<and> bmi (metrics negativeWeight) = [] \<and> dailyActivity (metrics negativeWeight) = []"
    by (simp add: negativeWeight_days negativeWeight_metrics numeral_eq_Suc
        initialDailyLog_def initialMetrics_def js_gt_def)
  have b: "\<not> ((\<forall>d \<in> set (days (mount (Some thursdayOnly) None)). \<not> js_gt (weight d) (Num 0)
        \<and> breakfast (food d) = [] \<and> lunch (food d) = [] \<and> snack (food d) = []
        \<and> dinner (food d) = [] \<and> other (food d) = [] \<and> mood d = [])
     \<and> strength (metrics (mount (Some thursdayOnly) None)) = []
     \<and> measurements (metrics (mount (Some thursdayOnly) None)) = []
     \<and> bmi (metrics (mount (Some thursdayOnly) None)) = []
     \<and> dailyActivity (metrics (mount (Some thursdayOnly) None)) = [])"
    by (simp add: days_mount_stored thursdayOnly_def numeral_eq_Suc initialDailyLog_def js_gt_def)
  from generateSummary_skips_iff [of negativeWeight integerToString Rejects] a
    generateSummary_skips_iff [of "mount (Some thursdayOnly) None" integerToString Rejects] b
  show ?thesis by (simp add: days_mount_stored)
qed

text \<open>
  Claim C5 as stated fails: generation is skipped in two reachable states in which not
  every weight is \<open>0\<close>, Monday's being \<open>NaN\<close> in one and \<open>-5\<close> in the other.
\<close>

theorem generateSummary_skips_with_nonzero_weight:
  "reachable clearedWeight
   \<and> weight (days clearedWeight ! 0) \<noteq> Num 0
   \<and> snd (generateSummary integerToString Rejects clearedWeight)
       = [Alert ''Por favor, introduce algunos datos antes de generar un resumen.'']
   \<and> reachable negativeWeight
   \<and> weight (days negativeWeight ! 0) = Num (- 5)
   \<and> snd (generateSummary integerToString Rejects negativeWeight)
       = [Alert ''Por favor, introduce algunos datos antes de generar un resumen.'']"
proof -
  have "reachable clearedWeight" by (rule r_log [OF r_mount clearedWeight_eq])
  moreover have "reachable negativeWeight" by (rule r_log [OF r_mount negativeWeight_eq])
  moreover have "\<not> hasData (days clearedWeight) (metrics clearedWeight)"
    by (simp add: hasData_iff clearedWeight_days clearedWeight_metrics numeral_eq_Suc
        initialDailyLog_def initialMetrics_def js_gt_def)
  moreover have "\<not> hasData (days negativeWeight) (metrics negativeWeight)"
    by (simp add: hasData_iff negativeWeight_days negativeWeight_metrics numeral_eq_Suc
        initialDailyLog_def initialMetrics_def js_gt_def)
  ultimately show ?thesis
    by (simp add: noData_message clearedWeight_days negativeWeight_days)
qed

end
